theory Spec2Isabelle
  imports Main
begin

section \<open>Data model of the wallet provider component (src/src/App.tsx)\<close>

text \<open>
  A TypeScript value of type \<open>T | null\<close> that may also be \<open>undefined\<close> at run time
  (reading index 0 of an empty array gives \<open>undefined\<close>). The spec's test
  \<open>x != null\<close> is JavaScript's loose comparison: it is false for \<open>null\<close> and for
  \<open>undefined\<close>.
\<close>

datatype 'a nullable = Null | Undefined | Val 'a

fun non_null :: "'a nullable \<Rightarrow> bool" where
  "non_null (Val v) = True"
| "non_null Null = False"
| "non_null Undefined = False"

text \<open>JavaScript truthiness of an optional string and of an optional number.\<close>

fun truthy_string :: "string nullable \<Rightarrow> bool" where
  "truthy_string (Val s) = (s \<noteq> [])"
| "truthy_string Null = False"
| "truthy_string Undefined = False"

fun truthy_number :: "int nullable \<Rightarrow> bool" where
  "truthy_number (Val n) = (n \<noteq> 0)"
| "truthy_number Null = False"
| "truthy_number Undefined = False"

text \<open>\<open>interface WalletState\<close>, lines 6 to 12.\<close>

record WalletState =
  address :: "string nullable"
  chainId :: "int nullable"
  isConnected :: bool
  isLoading :: bool
  error :: "string nullable"

text \<open>
  The injected object \<open>window.ethereum\<close> is an opaque capability, identified by a
  number; \<open>new ethers.BrowserProvider(window.ethereum)\<close> wraps it.
\<close>

type_synonym ethereum = nat

datatype BrowserProvider = BrowserProvider ethereum

text \<open>
  The two pieces of React state of \<open>WalletProvider\<close>: \<open>state\<close> (line 27) and
  \<open>provider\<close> (line 35).
\<close>

record WalletProvider =
  state :: WalletState
  provider :: "BrowserProvider option"

definition initial_state :: WalletState where
  "initial_state =
     \<lparr>address = Null, chainId = Null, isConnected = False, isLoading = False, error = Null\<rparr>"

definition initial :: WalletProvider where
  "initial = \<lparr>state = initial_state, provider = None\<rparr>"

subsection \<open>Thrown values\<close>

text \<open>
  A thrown value is read through \<open>err.message\<close> and \<open>err.code\<close> only. The code may
  be absent, a number or a string; \<open>===\<close> compares without conversion.
\<close>

datatype js_code = NoCode | NumCode int | StrCode string

record js_error =
  message :: "string nullable"
  code :: js_code

definition Error :: "string \<Rightarrow> js_error" where
  "Error m = \<lparr>message = Val m, code = NoCode\<rparr>"

text \<open>\<open>a || b\<close> on an optional string \<open>a\<close>.\<close>

definition or_else :: "string nullable \<Rightarrow> string \<Rightarrow> string" where
  "or_else a b = (case a of Val s \<Rightarrow> (if s \<noteq> [] then s else b) | Null \<Rightarrow> b | Undefined \<Rightarrow> b)"

section \<open>Disconnect and the account-change handler\<close>

text \<open>\<open>disconnect\<close>, lines 160 to 169: \<open>setProvider(null)\<close>, then the state literal.\<close>

definition disconnect :: "WalletProvider \<Rightarrow> WalletProvider" where
  "disconnect w =
     w\<lparr>provider := None,
       state := \<lparr>address = Null, chainId = Null, isConnected = False, isLoading = False,
                 error = Null\<rparr>\<rparr>"

text \<open>\<open>accounts[0]\<close>: \<open>undefined\<close> on an empty array.\<close>

definition first_account :: "string list \<Rightarrow> string nullable" where
  "first_account accounts = (case accounts of [] \<Rightarrow> Undefined | a # _ \<Rightarrow> Val a)"

text \<open>The \<open>accountsChanged\<close> listener, lines 174 to 180.\<close>

definition accountsChanged :: "string list \<Rightarrow> WalletProvider \<Rightarrow> WalletProvider" where
  "accountsChanged accounts w =
     (if length accounts = 0 then disconnect w
      else w\<lparr>state := (state w)\<lparr>address := first_account accounts\<rparr>\<rparr>)"

section \<open>Connect\<close>

datatype walletType = metamask | walletconnect

text \<open>
  What the browser and the wallet answer during one \<open>connect\<close>: whether
  \<open>window.ethereum\<close> exists, what \<open>provider.send("eth_requestAccounts", [])\<close> settles
  with, and what \<open>Number((await provider.getNetwork()).chainId)\<close> is. A rejected promise
  is \<open>Inl\<close> of the thrown value.
\<close>

record connect_env =
  window_ethereum :: "ethereum option"
  eth_requestAccounts :: "js_error + string list"
  getNetwork :: "js_error + int"

text \<open>
  \<open>connectMetaMask\<close>, lines 58 to 71. \<open>setProvider(provider)\<close> runs after both awaits,
  so a thrown failure leaves the component state as it was; the result is the updated
  component state with the pair \<open>{address: accounts[0], chainId}\<close>.
\<close>

definition connectMetaMask ::
  "connect_env \<Rightarrow> WalletProvider \<Rightarrow> js_error + (WalletProvider \<times> string nullable \<times> int)" where
  "connectMetaMask env w =
     (case window_ethereum env of
        None \<Rightarrow> Inl (Error ''MetaMask is not installed. Please install MetaMask to continue.'')
      | Some eth \<Rightarrow>
          (case eth_requestAccounts env of
             Inl err \<Rightarrow> Inl err
           | Inr accounts \<Rightarrow>
               (case getNetwork env of
                  Inl err \<Rightarrow> Inl err
                | Inr network_chainId \<Rightarrow>
                    Inr (w\<lparr>provider := Some (BrowserProvider eth)\<rparr>,
                         first_account accounts, network_chainId))))"

text \<open>\<open>connectWalletConnect\<close>, lines 74 to 98: the same calls, another message.\<close>

definition connectWalletConnect ::
  "connect_env \<Rightarrow> WalletProvider \<Rightarrow> js_error + (WalletProvider \<times> string nullable \<times> int)" where
  "connectWalletConnect env w =
     (case window_ethereum env of
        None \<Rightarrow>
          Inl (Error ''WalletConnect requires a Web3 provider. Install MetaMask as fallback.'')
      | Some eth \<Rightarrow>
          (case eth_requestAccounts env of
             Inl err \<Rightarrow> Inl err
           | Inr accounts \<Rightarrow>
               (case getNetwork env of
                  Inl err \<Rightarrow> Inl err
                | Inr network_chainId \<Rightarrow>
                    Inr (w\<lparr>provider := Some (BrowserProvider eth)\<rparr>,
                         first_account accounts, network_chainId))))"

text \<open>
  \<open>connect\<close>, lines 101 to 124, in its two synchronous parts: the update before the
  \<open>try\<close> (line 102), and what runs once the awaited call has settled (lines 105 to
  123). \<open>connect\<close> is the two in a row, with no other event in between.
\<close>

definition connect_begin :: "WalletProvider \<Rightarrow> WalletProvider" where
  "connect_begin w = w\<lparr>state := (state w)\<lparr>isLoading := True, error := Null\<rparr>\<rparr>"

definition connect_wallet ::
  "walletType \<Rightarrow> connect_env \<Rightarrow> WalletProvider
     \<Rightarrow> js_error + (WalletProvider \<times> string nullable \<times> int)" where
  "connect_wallet walletType env w =
     (if walletType = metamask then connectMetaMask env w else connectWalletConnect env w)"

definition connect_settle :: "walletType \<Rightarrow> connect_env \<Rightarrow> WalletProvider \<Rightarrow> WalletProvider" where
  "connect_settle walletType env w =
     (case connect_wallet walletType env w of
        Inr (w', result_address, result_chainId) \<Rightarrow>
          w'\<lparr>state := \<lparr>address = result_address, chainId = Val result_chainId,
                        isConnected = True, isLoading = False, error = Null\<rparr>\<rparr>
      | Inl err \<Rightarrow>
          w\<lparr>state := (state w)\<lparr>isLoading := False,
                                 error := Val (or_else (message err) ''Failed to connect wallet'')\<rparr>\<rparr>)"

definition connect :: "walletType \<Rightarrow> connect_env \<Rightarrow> WalletProvider \<Rightarrow> WalletProvider" where
  "connect walletType env w = connect_settle walletType env (connect_begin w)"

text \<open>A state is disconnected-equivalent when its three connection fields are those of
  the initial state.\<close>

definition disconnected_equivalent :: "WalletState \<Rightarrow> bool" where
  "disconnected_equivalent s = (address s = Null \<and> chainId s = Null \<and> \<not> isConnected s)"

section \<open>Message Builder\<close>

text \<open>
  \<open>${chainId}\<close> in the template literal prints a number. A number holding a safe
  integer (at most \<open>2^53 - 1\<close> in magnitude, \<open>Number.isSafeInteger\<close>) is printed with
  all its decimal digits, and a minus sign when negative. Beyond the safe integers
  JavaScript prints the shortest digits that identify the double, padded with zeros
  (\<open>18446744073709552000\<close> for \<open>2^64\<close>), and an exponent from \<open>10^21\<close> on
  (\<open>1e+21\<close>): that text is not computed here, it is a value of the environment.
\<close>

definition digit_char :: "nat \<Rightarrow> char" where
  "digit_char d = ''0123456789'' ! d"

fun nat_toString :: "nat \<Rightarrow> string" where
  "nat_toString n =
     (if n < 10 then [digit_char n] else nat_toString (n div 10) @ [digit_char (n mod 10)])"

declare nat_toString.simps [simp del]

definition Number_isSafeInteger :: "int \<Rightarrow> bool" where
  "Number_isSafeInteger n = (- 9007199254740991 \<le> n \<and> n \<le> 9007199254740991)"

definition Number_toString :: "(int \<Rightarrow> string) \<Rightarrow> int \<Rightarrow> string" where
  "Number_toString beyond_safe n =
     (if Number_isSafeInteger n
      then (if n < 0 then CHR ''-'' # nat_toString (nat (- n)) else nat_toString (nat n))
      else beyond_safe n)"

text \<open>\<open>s.substring(i, j)\<close>: the arguments are swapped when \<open>i > j\<close> and clamped to
  the length of \<open>s\<close>.\<close>

definition substring :: "nat \<Rightarrow> nat \<Rightarrow> string \<Rightarrow> string" where
  "substring i j s = (let a = min i j; b = max i j in take (b - a) (drop a s))"

text \<open>
  The ambient values \<open>generateSiweMessage\<close> reads: \<open>window.location.host\<close>,
  \<open>window.location.origin\<close>, the text \<open>Math.random().toString(36)\<close> evaluates to
  (\<open>0.i\<close> when the random number is 1/2, \<open>0.4i\<close> when it is 1/8: 1/8 is
  4/36 + 18/1296, and \<open>i\<close> is the digit 18), \<open>new Date().toISOString()\<close>, and the
  text JavaScript prints for a number beyond the safe integers.
\<close>

record page_env =
  location_host :: string
  location_origin :: string
  Math_random_toString36 :: string
  Date_toISOString :: string
  Number_toString_beyond_safe :: "int \<Rightarrow> string"



text \<open>Line 42: \<open>Math.random().toString(36).substring(2, 15)\<close>.\<close>

definition nonce_of :: "string \<Rightarrow> string" where
  "nonce_of random36 = substring 2 15 random36"

text \<open>\<open>generateSiweMessage\<close>, lines 38 to 55. The template literal has a line feed at
  each line end of the source and no indentation.\<close>

definition generateSiweMessage :: "'a page_env_scheme \<Rightarrow> string \<Rightarrow> int \<Rightarrow> string" where
  "generateSiweMessage env address' chainId' =
     (let domain = location_host env;
          origin = location_origin env;
          statement = ''Sign in to verify your wallet ownership'';
          nonce = nonce_of (Math_random_toString36 env);
          issuedAt = Date_toISOString env
      in domain @ '' wants you to sign in with your Ethereum account:\<newline>''
         @ address' @ ''\<newline>\<newline>''
         @ statement @ ''\<newline>\<newline>URI: ''
         @ origin @ ''\<newline>Version: 1\<newline>Chain ID: ''
         @ Number_toString (Number_toString_beyond_safe env) chainId' @ ''\<newline>Nonce: ''
         @ nonce @ ''\<newline>Issued At: ''
         @ issuedAt)"

section \<open>Sign\<close>

datatype JsonRpcSigner = JsonRpcSigner BrowserProvider

text \<open>
  What the wallet answers during one \<open>signMessage\<close>: what \<open>provider.getSigner()\<close>
  settles with, and what \<open>signer.signMessage(message)\<close> settles with.
\<close>

record sign_env = page_env +
  provider_getSigner :: "BrowserProvider \<Rightarrow> js_error + JsonRpcSigner"
  signer_signMessage :: "JsonRpcSigner \<Rightarrow> string \<Rightarrow> js_error + string"

text \<open>
  \<open>signMessage\<close>, lines 127 to 157, in its two synchronous parts. The first part
  (lines 128 to 133) either returns \<open>null\<close> at once, or starts the loading phase and
  waits, holding the \<open>provider\<close>, \<open>state.address\<close> and \<open>state.chainId\<close> it was
  called with. The guard \<open>!provider || !state.address || !state.chainId\<close> is true of a
  null provider, of a null, undefined or empty address, and of a null, undefined or zero
  chain id.
\<close>

datatype signMessage_phase = Returned "string nullable" | Awaiting BrowserProvider string int

definition signMessage_begin :: "WalletProvider \<Rightarrow> WalletProvider \<times> signMessage_phase" where
  "signMessage_begin w =
     (case provider w of
        None \<Rightarrow> (w\<lparr>state := (state w)\<lparr>error := Val ''Wallet not connected''\<rparr>\<rparr>, Returned Null)
      | Some p \<Rightarrow>
          (case address (state w) of
             Val a \<Rightarrow>
               (case chainId (state w) of
                  Val c \<Rightarrow>
                    if a = [] \<or> c = 0
                    then (w\<lparr>state := (state w)\<lparr>error := Val ''Wallet not connected''\<rparr>\<rparr>,
                          Returned Null)
                    else (w\<lparr>state := (state w)\<lparr>isLoading := True, error := Null\<rparr>\<rparr>,
                          Awaiting p a c)
                | _ \<Rightarrow> (w\<lparr>state := (state w)\<lparr>error := Val ''Wallet not connected''\<rparr>\<rparr>,
                        Returned Null))
           | _ \<Rightarrow> (w\<lparr>state := (state w)\<lparr>error := Val ''Wallet not connected''\<rparr>\<rparr>,
                   Returned Null)))"

text \<open>Lines 136 to 138, the calls inside \<open>try\<close>: either of the two awaits may throw.\<close>

definition signMessage_try ::
  "sign_env \<Rightarrow> BrowserProvider \<Rightarrow> string \<Rightarrow> int \<Rightarrow> js_error + string" where
  "signMessage_try env p a c =
     (case provider_getSigner env p of
        Inl err \<Rightarrow> Inl err
      | Inr signer \<Rightarrow> signer_signMessage env signer (generateSiweMessage env a c))"

text \<open>Lines 140 to 156, once the awaited calls have settled; the updates are functional
  (\<open>prev => ...\<close>), so they apply to the state of that moment.\<close>

definition signMessage_settle ::
  "sign_env \<Rightarrow> BrowserProvider \<Rightarrow> string \<Rightarrow> int \<Rightarrow> WalletProvider
     \<Rightarrow> WalletProvider \<times> string nullable" where
  "signMessage_settle env p a c w =
     (case signMessage_try env p a c of
        Inr signature \<Rightarrow> (w\<lparr>state := (state w)\<lparr>isLoading := False\<rparr>\<rparr>, Val signature)
      | Inl err \<Rightarrow>
          (let errorMsg = (if code err = NumCode 4001 then ''Signature rejected by user''
                           else ''Failed to sign message'')
           in (w\<lparr>state := (state w)\<lparr>isLoading := False, error := Val errorMsg\<rparr>\<rparr>, Null)))"

text \<open>One whole call, with no other event in between: the final state and the value the
  promise resolves to.\<close>

definition signMessage :: "sign_env \<Rightarrow> WalletProvider \<Rightarrow> WalletProvider \<times> string nullable" where
  "signMessage env w =
     (case signMessage_begin w of
        (w', Returned r) \<Rightarrow> (w', r)
      | (w', Awaiting p a c) \<Rightarrow> signMessage_settle env p a c w')"

text \<open>The negation of the guard of line 128.\<close>

definition can_sign :: "WalletProvider \<Rightarrow> bool" where
  "can_sign w = (provider w \<noteq> None \<and> truthy_string (address (state w))
                 \<and> truthy_number (chainId (state w)))"

section \<open>Events and reachable states\<close>

text \<open>
  Each synchronous part above is one event of the component; between the two parts of a
  \<open>connect\<close> or of a \<open>signMessage\<close> any other event may happen. A reachable state
  is one that some sequence of events produces from the initial state.
\<close>

datatype event =
    Connect_begin
  | Connect_settle walletType connect_env
  | SignMessage_begin
  | SignMessage_settle sign_env BrowserProvider string int
  | Disconnect
  | AccountsChanged "string list"

fun step :: "event \<Rightarrow> WalletProvider \<Rightarrow> WalletProvider" where
  "step Connect_begin w = connect_begin w"
| "step (Connect_settle walletType env) w = connect_settle walletType env w"
| "step SignMessage_begin w = fst (signMessage_begin w)"
| "step (SignMessage_settle env p a c) w = fst (signMessage_settle env p a c w)"
| "step Disconnect w = disconnect w"
| "step (AccountsChanged accounts) w = accountsChanged accounts w"

inductive reachable :: "WalletProvider \<Rightarrow> bool" where
  reachable_initial: "reachable initial"
| reachable_step: "reachable w \<Longrightarrow> reachable (step e w)"

text \<open>The invariant of the data model: \<open>isConnected\<close> implies
  \<open>address != null && chainId != null\<close>.\<close>

definition connection_invariant :: "WalletState \<Rightarrow> bool" where
  "connection_invariant s = (isConnected s \<longrightarrow> non_null (address s) \<and> non_null (chainId s))"

text \<open>An event in which the wallet does not answer \<open>eth_requestAccounts\<close> with an
  empty list.\<close>

fun returns_accounts :: "event \<Rightarrow> bool" where
  "returns_accounts (Connect_settle walletType env) = (eth_requestAccounts env \<noteq> Inr [])"
| "returns_accounts _ = True"

section \<open>Vocabulary of the specification: lines, and reading a decimal numeral\<close>

text \<open>The lines of a text are its pieces between line feeds.\<close>

fun lines_of :: "string \<Rightarrow> string list" where
  "lines_of [] = [[]]"
| "lines_of (c # cs) =
     (if c = CHR ''\<newline>'' then [] # lines_of cs
      else (case lines_of cs of [] \<Rightarrow> [[c]] | l # ls \<Rightarrow> (c # l) # ls))"

declare lines_of.simps(2) [simp del]

fun join_lines :: "string list \<Rightarrow> string" where
  "join_lines [] = []"
| "join_lines [l] = l"
| "join_lines (l # l' # ls) = l @ CHR ''\<newline>'' # join_lines (l' # ls)"

text \<open>The value of a decimal numeral with an optional minus sign.\<close>

definition digit_value :: "char \<Rightarrow> nat" where
  "digit_value c = of_char c - 48"

definition parse_nat :: "string \<Rightarrow> nat" where
  "parse_nat s = foldl (\<lambda>acc c. 10 * acc + digit_value c) 0 s"

definition parse_int :: "string \<Rightarrow> int" where
  "parse_int s =
     (case s of [] \<Rightarrow> 0
      | c # cs \<Rightarrow> if c = CHR ''-'' then - int (parse_nat cs) else int (parse_nat s))"

section \<open>Properties of disconnect and of the account-change handler\<close>

text \<open>
  C4. From every prior state, \<open>disconnect\<close> gives exactly the initial state
  \<open>{address: null, chainId: null, isConnected: false, isLoading: false, error: null}\<close>
  and a null provider handle; calling it twice gives what calling it once gives.
\<close>

theorem disconnect_initial_idempotent:
  "state (disconnect w) = initial_state \<and> provider (disconnect w) = None
   \<and> disconnect w = initial \<and> disconnect (disconnect w) = disconnect w"
  by (simp add: disconnect_def initial_def initial_state_def)

text \<open>
  C8. An account-change notification with an empty account list is the same transition
  as \<open>disconnect\<close>, from every state (connected or not).
\<close>

theorem accountsChanged_empty_is_disconnect:
  "accountsChanged [] w = disconnect w"
  by (simp add: accountsChanged_def)

text \<open>
  C9. An account-change notification with a non-empty account list sets \<open>address\<close> to the
  first reported account and changes nothing else: \<open>chainId\<close>, \<open>isConnected\<close>,
  \<open>isLoading\<close>, \<open>error\<close> and the provider handle are those of the prior state.
\<close>

theorem accountsChanged_nonempty_frame:
  assumes "accounts \<noteq> []"
  shows "accountsChanged accounts w = w\<lparr>state := (state w)\<lparr>address := Val (hd accounts)\<rparr>\<rparr>
         \<and> address (state (accountsChanged accounts w)) = Val (hd accounts)
         \<and> chainId (state (accountsChanged accounts w)) = chainId (state w)
         \<and> isConnected (state (accountsChanged accounts w)) = isConnected (state w)"
  using assms by (cases accounts) (simp_all add: accountsChanged_def first_account_def)

theorem accountsChanged_nonempty_frame_witness:
  "[''0xB'', ''0xC''] \<noteq> []
   \<and> accountsChanged [''0xB'', ''0xC'']
       \<lparr>state = \<lparr>address = Val ''0xA'', chainId = Val 5, isConnected = True,
                  isLoading = False, error = Null\<rparr>,
        provider = Some (BrowserProvider 0)\<rparr>
     = \<lparr>state = \<lparr>address = Val ''0xB'', chainId = Val 5, isConnected = True,
                  isLoading = False, error = Null\<rparr>,
        provider = Some (BrowserProvider 0)\<rparr>"
  using accountsChanged_nonempty_frame
    [of "[''0xB'', ''0xC'']"
        "\<lparr>state = \<lparr>address = Val ''0xA'', chainId = Val 5, isConnected = True,
                   isLoading = False, error = Null\<rparr>,
         provider = Some (BrowserProvider 0)\<rparr>"]
  by simp

section \<open>Properties of connect\<close>

lemma connect_wallet_failure_any_state:
  "connect_wallet walletType env w = Inl err \<Longrightarrow> connect_wallet walletType env w' = Inl err"
  by (auto simp: connect_wallet_def connectMetaMask_def connectWalletConnect_def
      split: option.splits sum.splits if_splits)

text \<open>
  C3, as the claim states it, fails: a wallet that is connected when \<open>connect\<close> is called
  again stays connected when that call fails (no \<open>window.ethereum\<close> here).
\<close>

theorem connect_failure_keeps_connection_counterexample:
  "\<not> disconnected_equivalent
       (state (connect metamask
                 \<lparr>window_ethereum = None, eth_requestAccounts = Inr [], getNetwork = Inr 1\<rparr>
                 (connect metamask
                    \<lparr>window_ethereum = Some 0, eth_requestAccounts = Inr [''0xA''],
                     getNetwork = Inr 1\<rparr>
                    initial)))"
  by (simp add: connect_def connect_settle_def connect_begin_def connect_wallet_def
      connectMetaMask_def first_account_def initial_def initial_state_def
      disconnected_equivalent_def Error_def)

text \<open>
  C3, amended. When the wallet call of \<open>connect\<close> throws, the resulting state keeps the
  prior \<open>address\<close>, \<open>chainId\<close> and \<open>isConnected\<close> (and the provider handle), has
  \<open>isLoading = false\<close>, and has \<open>error\<close> set to the failure's message, or to
  \<open>"Failed to connect wallet"\<close> when the message is absent or empty. So the result is
  disconnected-equivalent whenever the prior state was.
\<close>

theorem connect_failure_state:
  assumes "connect_wallet walletType env (connect_begin w) = Inl err"
  shows "connect walletType env w =
           w\<lparr>state := (state w)\<lparr>isLoading := False,
                                  error := Val (or_else (message err) ''Failed to connect wallet'')\<rparr>\<rparr>
         \<and> (message err = Val m \<and> m \<noteq> [] \<longrightarrow> error (state (connect walletType env w)) = Val m)
         \<and> (message err \<in> {Null, Undefined, Val []} \<longrightarrow>
              error (state (connect walletType env w)) = Val ''Failed to connect wallet'')
         \<and> (disconnected_equivalent (state w) \<longrightarrow>
              disconnected_equivalent (state (connect walletType env w)))"
  using assms
  by (auto simp: connect_def connect_settle_def connect_begin_def or_else_def
      disconnected_equivalent_def)

theorem connect_failure_state_witness:
  "connect walletconnect
     \<lparr>window_ethereum = Some 0,
      eth_requestAccounts = Inl \<lparr>message = Val ''User rejected the request.'', code = NumCode 4001\<rparr>,
      getNetwork = Inr 1\<rparr>
     initial
   = \<lparr>state = \<lparr>address = Null, chainId = Null, isConnected = False, isLoading = False,
                error = Val ''User rejected the request.''\<rparr>,
      provider = None\<rparr>
   \<and> disconnected_equivalent
       (state (connect walletconnect
                 \<lparr>window_ethereum = Some 0,
                  eth_requestAccounts =
                    Inl \<lparr>message = Val ''User rejected the request.'', code = NumCode 4001\<rparr>,
                  getNetwork = Inr 1\<rparr>
                 initial))"
proof -
  let ?err = "\<lparr>message = Val ''User rejected the request.'', code = NumCode 4001\<rparr>"
  let ?env = "\<lparr>window_ethereum = Some 0, eth_requestAccounts = Inl ?err, getNetwork = Inr 1\<rparr>"
  have failed: "connect_wallet walletconnect ?env (connect_begin initial) = Inl ?err"
    by (simp add: connect_wallet_def connectWalletConnect_def)
  have start: "disconnected_equivalent (state initial)"
    by (simp add: disconnected_equivalent_def initial_def initial_state_def)
  from connect_failure_state [OF failed, where m = "''User rejected the request.''"] start
  show ?thesis
    by (simp add: or_else_def initial_def initial_state_def disconnected_equivalent_def)
qed

section \<open>Properties of signMessage\<close>

lemma signMessage_begin_can_sign:
  assumes "provider w = Some p" and "address (state w) = Val a" and "a \<noteq> []"
    and "chainId (state w) = Val c" and "c \<noteq> 0"
  shows "signMessage_begin w =
           (w\<lparr>state := (state w)\<lparr>isLoading := True, error := Null\<rparr>\<rparr>, Awaiting p a c)"
  using assms by (simp add: signMessage_begin_def)

lemma signMessage_begin_guard:
  "\<not> can_sign w \<Longrightarrow>
   signMessage_begin w =
     (w\<lparr>state := (state w)\<lparr>error := Val ''Wallet not connected''\<rparr>\<rparr>, Returned Null)"
  by (cases "address (state w)"; cases "chainId (state w)")
     (auto simp: signMessage_begin_def can_sign_def split: option.splits)

text \<open>
  C2. In every state without a live provider handle, \<open>signMessage\<close> returns in its first
  part with \<open>null\<close>: its only state update sets \<open>error\<close> to
  \<open>"Wallet not connected"\<close>, the loading phase is never started, and \<open>isLoading\<close> is
  what it was before the call.
\<close>

theorem signMessage_not_connected:
  assumes "provider w = None"
  shows "signMessage_begin w =
           (w\<lparr>state := (state w)\<lparr>error := Val ''Wallet not connected''\<rparr>\<rparr>, Returned Null)
       \<and> signMessage env w =
           (w\<lparr>state := (state w)\<lparr>error := Val ''Wallet not connected''\<rparr>\<rparr>, Null)
       \<and> error (state (fst (signMessage env w))) = Val ''Wallet not connected''
       \<and> isLoading (state (fst (signMessage env w))) = isLoading (state w)"
  using assms by (simp add: signMessage_def signMessage_begin_def)

theorem signMessage_not_connected_witness:
  "provider initial = None
   \<and> signMessage
        \<lparr>location_host = ''example.org'', location_origin = ''https://example.org'',
         Math_random_toString36 = ''0.4i'', Date_toISOString = ''2024-01-01T00:00:00.000Z'',
         Number_toString_beyond_safe = (\<lambda>n. ''1e+21''),
         provider_getSigner = (\<lambda>p. Inr (JsonRpcSigner p)),
         signer_signMessage = (\<lambda>signer text. Inr ''0xsig'')\<rparr>
        initial
     = (\<lparr>state = \<lparr>address = Null, chainId = Null, isConnected = False, isLoading = False,
                   error = Val ''Wallet not connected''\<rparr>,
         provider = None\<rparr>, Null)"
proof -
  have none: "provider initial = None"
    by (simp add: initial_def)
  from signMessage_not_connected [OF none] none show ?thesis
    by (simp add: initial_def initial_state_def)
qed

text \<open>
  In a reachable state the provider handle is live exactly when \<open>isConnected\<close> is true
  (the wallet's answer to \<open>eth_requestAccounts\<close> being an array, as in
  \<open>connect_env\<close>), so the states without a live provider handle are the reachable
  states with \<open>isConnected = false\<close>.
\<close>

lemma reachable_provider_iff_isConnected:
  "reachable w \<Longrightarrow> (provider w \<noteq> None) = isConnected (state w)"
proof (induction rule: reachable.induct)
  case reachable_initial
  show ?case by (simp add: initial_def initial_state_def)
next
  case (reachable_step w e)
  then show ?case
    by (cases e)
       (auto simp: connect_begin_def connect_settle_def connect_wallet_def connectMetaMask_def
          connectWalletConnect_def signMessage_begin_def signMessage_settle_def disconnect_def
          accountsChanged_def Let_def
          split: option.splits sum.splits nullable.splits if_splits)
qed

text \<open>
  C5. In every state in which the signing call is made (live provider handle, address and
  chain id set), when that call fails \<open>signMessage\<close> returns \<open>null\<close>, leaves
  \<open>isLoading = false\<close>, and sets \<open>error\<close> to \<open>"Signature rejected by user"\<close> exactly
  when the failure's code is the number 4001, and to \<open>"Failed to sign message"\<close> for every
  other failure.
\<close>

theorem signMessage_failure:
  assumes "provider w = Some p" and "address (state w) = Val a" and "a \<noteq> []"
    and "chainId (state w) = Val c" and "c \<noteq> 0"
    and "signMessage_try env p a c = Inl err"
  shows "snd (signMessage env w) = Null
       \<and> isLoading (state (fst (signMessage env w))) = False
       \<and> (error (state (fst (signMessage env w))) = Val ''Signature rejected by user'')
           = (code err = NumCode 4001)
       \<and> (error (state (fst (signMessage env w))) = Val ''Failed to sign message'')
           = (code err \<noteq> NumCode 4001)
       \<and> fst (signMessage env w) =
           w\<lparr>state := (state w)\<lparr>isLoading := False,
                                   error := Val (if code err = NumCode 4001
                                                 then ''Signature rejected by user''
                                                 else ''Failed to sign message'')\<rparr>\<rparr>"
  using assms by (simp add: signMessage_def signMessage_begin_def signMessage_settle_def)

theorem signMessage_failure_witness:
  "signMessage
     \<lparr>location_host = ''example.org'', location_origin = ''https://example.org'',
      Math_random_toString36 = ''0.4i'', Date_toISOString = ''2024-01-01T00:00:00.000Z'',
      Number_toString_beyond_safe = (\<lambda>n. ''1e+21''),
      provider_getSigner = (\<lambda>p. Inr (JsonRpcSigner p)),
      signer_signMessage =
        (\<lambda>signer text. Inl \<lparr>message = Val ''User denied message signature.'',
                              code = NumCode 4001\<rparr>)\<rparr>
     (connect metamask
        \<lparr>window_ethereum = Some 0, eth_requestAccounts = Inr [''0xA''], getNetwork = Inr 1\<rparr>
        initial)
   = (\<lparr>state = \<lparr>address = Val ''0xA'', chainId = Val 1, isConnected = True,
                 isLoading = False, error = Val ''Signature rejected by user''\<rparr>,
       provider = Some (BrowserProvider 0)\<rparr>, Null)"
proof -
  let ?err = "\<lparr>message = Val ''User denied message signature.'', code = NumCode 4001\<rparr>"
  let ?env = "\<lparr>location_host = ''example.org'', location_origin = ''https://example.org'',
      Math_random_toString36 = ''0.4i'', Date_toISOString = ''2024-01-01T00:00:00.000Z'',
      Number_toString_beyond_safe = (\<lambda>n. ''1e+21''),
      provider_getSigner = (\<lambda>p. Inr (JsonRpcSigner p)),
      signer_signMessage = (\<lambda>signer text. Inl ?err)\<rparr>"
  let ?w = "connect metamask
        \<lparr>window_ethereum = Some 0, eth_requestAccounts = Inr [''0xA''], getNetwork = Inr 1\<rparr>
        initial"
  have w: "?w = \<lparr>state = \<lparr>address = Val ''0xA'', chainId = Val 1, isConnected = True,
                 isLoading = False, error = Null\<rparr>,
       provider = Some (BrowserProvider 0)\<rparr>"
    by (simp add: connect_def connect_settle_def connect_begin_def connect_wallet_def
        connectMetaMask_def first_account_def initial_def)
  have failed: "signMessage_try ?env (BrowserProvider 0) ''0xA'' 1 = Inl ?err"
    by (simp add: signMessage_try_def)
  have "fst (signMessage ?env ?w) =
          ?w\<lparr>state := (state ?w)\<lparr>isLoading := False,
                                    error := Val ''Signature rejected by user''\<rparr>\<rparr>
        \<and> snd (signMessage ?env ?w) = Null"
    using signMessage_failure [of ?w "BrowserProvider 0" "''0xA''" 1 ?env ?err] failed
    by (simp add: w)
  then show ?thesis
    by (simp add: w prod_eq_iff)
qed

text \<open>
  C10. In every state in which the signing call is made, when the signer is obtained and
  the signing call succeeds, \<open>signMessage\<close> returns exactly the signature the signer
  produced for the generated message; \<open>address\<close>, \<open>chainId\<close>, \<open>isConnected\<close> and the
  provider handle are unchanged, \<open>error\<close> is null and \<open>isLoading\<close> is false.
\<close>

theorem signMessage_success:
  assumes "provider w = Some p" and "address (state w) = Val a" and "a \<noteq> []"
    and "chainId (state w) = Val c" and "c \<noteq> 0"
    and "provider_getSigner env p = Inr signer"
    and "signer_signMessage env signer (generateSiweMessage env a c) = Inr signature"
  shows "snd (signMessage env w) = Val signature
       \<and> address (state (fst (signMessage env w))) = address (state w)
       \<and> chainId (state (fst (signMessage env w))) = chainId (state w)
       \<and> isConnected (state (fst (signMessage env w))) = isConnected (state w)
       \<and> error (state (fst (signMessage env w))) = Null
       \<and> isLoading (state (fst (signMessage env w))) = False
       \<and> fst (signMessage env w) = w\<lparr>state := (state w)\<lparr>isLoading := False, error := Null\<rparr>\<rparr>"
  using assms
  by (simp add: signMessage_def signMessage_begin_def signMessage_settle_def signMessage_try_def)

theorem signMessage_success_witness:
  "signMessage
     \<lparr>location_host = ''example.org'', location_origin = ''https://example.org'',
      Math_random_toString36 = ''0.4i'', Date_toISOString = ''2024-01-01T00:00:00.000Z'',
      Number_toString_beyond_safe = (\<lambda>n. ''1e+21''),
      provider_getSigner = (\<lambda>p. Inr (JsonRpcSigner p)),
      signer_signMessage = (\<lambda>signer text. Inr (''signed:'' @ take 11 text))\<rparr>
     (connect metamask
        \<lparr>window_ethereum = Some 0, eth_requestAccounts = Inr [''0xA''], getNetwork = Inr 1\<rparr>
        initial)
   = (\<lparr>state = \<lparr>address = Val ''0xA'', chainId = Val 1, isConnected = True,
                 isLoading = False, error = Null\<rparr>,
       provider = Some (BrowserProvider 0)\<rparr>, Val ''signed:example.org'')"
proof -
  let ?env = "\<lparr>location_host = ''example.org'', location_origin = ''https://example.org'',
      Math_random_toString36 = ''0.4i'', Date_toISOString = ''2024-01-01T00:00:00.000Z'',
      Number_toString_beyond_safe = (\<lambda>n. ''1e+21''),
      provider_getSigner = (\<lambda>p. Inr (JsonRpcSigner p)),
      signer_signMessage = (\<lambda>signer text. Inr (''signed:'' @ take 11 text))\<rparr>"
  let ?w = "connect metamask
        \<lparr>window_ethereum = Some 0, eth_requestAccounts = Inr [''0xA''], getNetwork = Inr 1\<rparr>
        initial"
  have w: "?w = \<lparr>state = \<lparr>address = Val ''0xA'', chainId = Val 1, isConnected = True,
                 isLoading = False, error = Null\<rparr>,
       provider = Some (BrowserProvider 0)\<rparr>"
    by (simp add: connect_def connect_settle_def connect_begin_def connect_wallet_def
        connectMetaMask_def first_account_def initial_def)
  have signer: "provider_getSigner ?env (BrowserProvider 0) = Inr (JsonRpcSigner (BrowserProvider 0))"
    by simp
  have signed: "signer_signMessage ?env (JsonRpcSigner (BrowserProvider 0))
                  (generateSiweMessage ?env ''0xA'' 1) = Inr ''signed:example.org''"
    by (simp add: generateSiweMessage_def)
  have "fst (signMessage ?env ?w) = ?w\<lparr>state := (state ?w)\<lparr>isLoading := False, error := Null\<rparr>\<rparr>
        \<and> snd (signMessage ?env ?w) = Val ''signed:example.org''"
    using signMessage_success [of ?w "BrowserProvider 0" "''0xA''" 1 ?env, OF _ _ _ _ _ signer signed]
    by (simp add: w)
  then show ?thesis
    by (simp add: w prod_eq_iff)
qed

section \<open>The connection invariant\<close>

text \<open>
  C1. The invariant \<open>isConnected\<close> implies \<open>address != null && chainId != null\<close> is
  broken by a successful \<open>connect\<close> whose wallet answers \<open>eth_requestAccounts\<close> with
  an empty list: \<open>accounts[0]\<close> is \<open>undefined\<close>, and line 110 stores it with
  \<open>isConnected: true\<close>.
\<close>

theorem connect_empty_accounts_isConnected_without_address:
  "isConnected (state (connect metamask
       \<lparr>window_ethereum = Some 0, eth_requestAccounts = Inr [], getNetwork = Inr 1\<rparr> initial))
   \<and> address (state (connect metamask
       \<lparr>window_ethereum = Some 0, eth_requestAccounts = Inr [], getNetwork = Inr 1\<rparr> initial))
     = Undefined
   \<and> \<not> non_null (address (state (connect metamask
       \<lparr>window_ethereum = Some 0, eth_requestAccounts = Inr [], getNetwork = Inr 1\<rparr> initial)))"
  by (simp add: connect_def connect_settle_def connect_begin_def connect_wallet_def
      connectMetaMask_def first_account_def initial_def)

text \<open>
  Every other event keeps the invariant: each part of \<open>connect\<close> (failing, or succeeding
  with at least one account), each part of \<open>signMessage\<close>, \<open>disconnect\<close> and the
  account-change handler.
\<close>

lemma step_connection_invariant:
  assumes "connection_invariant (state w)" and "returns_accounts e"
  shows "connection_invariant (state (step e w))"
  using assms
  by (cases e)
     (auto simp: connection_invariant_def connect_begin_def connect_settle_def connect_wallet_def
        connectMetaMask_def connectWalletConnect_def signMessage_begin_def signMessage_settle_def
        disconnect_def accountsChanged_def first_account_def Let_def
        split: option.splits sum.splits nullable.splits if_splits list.splits)

lemma connect_connection_invariant:
  assumes "connection_invariant (state w)" and "eth_requestAccounts env \<noteq> Inr []"
  shows "connection_invariant (state (connect walletType env w))"
proof -
  have "connection_invariant (state (step Connect_begin w))"
    using assms(1) by (rule step_connection_invariant) simp
  then have "connection_invariant
      (state (step (Connect_settle walletType env) (step Connect_begin w)))"
    by (rule step_connection_invariant) (simp add: assms(2))
  then show ?thesis by (simp add: connect_def)
qed


section \<open>Properties of the Message Builder\<close>

subsection \<open>Lines of a text\<close>

lemma lines_of_nonempty: "lines_of s \<noteq> []"
  by (induction s) (auto simp: lines_of.simps(2) split: list.splits)

lemma lines_of_Cons:
  "lines_of (c # cs) =
     (if c = CHR ''\<newline>'' then [] # lines_of cs
      else (c # hd (lines_of cs)) # tl (lines_of cs))"
  using lines_of_nonempty [of cs] by (cases "lines_of cs") (simp_all add: lines_of.simps(2))

lemma lines_of_no_newline: "CHR ''\<newline>'' \<notin> set s \<Longrightarrow> lines_of s = [s]"
  by (induction s) (auto simp: lines_of_Cons)

lemma lines_of_append_newline:
  "lines_of (xs @ CHR ''\<newline>'' # ys) = lines_of xs @ lines_of ys"
proof (induction xs)
  case Nil
  show ?case by (simp add: lines_of_Cons)
next
  case (Cons c cs)
  obtain l ls where "lines_of cs = l # ls"
    using lines_of_nonempty [of cs] by (cases "lines_of cs") auto
  with Cons show ?case by (simp add: lines_of_Cons)
qed

lemma lines_of_join_lines:
  "ls \<noteq> [] \<Longrightarrow> lines_of (join_lines ls) = concat (map lines_of ls)"
  by (induction ls rule: join_lines.induct) (simp_all add: lines_of_append_newline)

subsection \<open>Decimal numerals\<close>

lemma digit_value_char: "d < 10 \<Longrightarrow> digit_value (digit_char d) = d"
proof -
  assume "d < 10"
  then have "d \<in> {0, 1, 2, 3, 4, 5, 6, 7, 8, 9}" by auto
  then show ?thesis by (auto simp: digit_value_def digit_char_def)
qed

lemma digit_char_plain:
  "d < 10 \<Longrightarrow> digit_char d \<noteq> CHR ''-'' \<and> digit_char d \<noteq> CHR ''\<newline>''"
proof -
  assume "d < 10"
  then have "d \<in> {0, 1, 2, 3, 4, 5, 6, 7, 8, 9}" by auto
  then show ?thesis by (auto simp: digit_char_def)
qed

lemma parse_nat_snoc: "parse_nat (s @ [c]) = 10 * parse_nat s + digit_value c"
  by (simp add: parse_nat_def)

lemma parse_nat_toString: "parse_nat (nat_toString n) = n"
proof (induction n rule: nat_toString.induct)
  case (1 n)
  show ?case
  proof (cases "n < 10")
    case True
    then show ?thesis
      by (simp add: nat_toString.simps [of n] parse_nat_def digit_value_char)
  next
    case False
    with 1 show ?thesis
      by (simp add: nat_toString.simps [of n] parse_nat_snoc digit_value_char)
  qed
qed

lemma nat_toString_chars:
  "ch \<in> set (nat_toString n) \<Longrightarrow> ch \<noteq> CHR ''-'' \<and> ch \<noteq> CHR ''\<newline>''"
proof (induction n rule: nat_toString.induct)
  case (1 n)
  show ?case
  proof (cases "n < 10")
    case True
    with 1(2) show ?thesis
      using digit_char_plain [of n] by (simp add: nat_toString.simps [of n])
  next
    case False
    with 1 show ?thesis
      using digit_char_plain [of "n mod 10"] by (auto simp add: nat_toString.simps [of n])
  qed
qed

lemma nat_toString_nonempty: "nat_toString n \<noteq> []"
  by (simp add: nat_toString.simps [of n])

lemma parse_int_toString:
  assumes "Number_isSafeInteger n"
  shows "parse_int (Number_toString beyond_safe n) = n"
proof (cases "n < 0")
  case True
  with assms show ?thesis
    by (simp add: Number_toString_def parse_int_def parse_nat_toString)
next
  case False
  obtain ch rest where eq: "nat_toString (nat n) = ch # rest"
    using nat_toString_nonempty [of "nat n"] by (cases "nat_toString (nat n)") auto
  then have "ch \<noteq> CHR ''-''"
    using nat_toString_chars [of ch "nat n"] by simp
  with False eq assms show ?thesis
    using parse_nat_toString [of "nat n"] by (simp add: Number_toString_def parse_int_def)
qed

lemma Number_toString_no_newline:
  "Number_isSafeInteger n \<Longrightarrow> CHR ''\<newline>'' \<notin> set (Number_toString beyond_safe n)"
  using nat_toString_chars [of "CHR ''\<newline>''"] by (auto simp: Number_toString_def)

subsection \<open>The lines of the challenge\<close>

lemma generateSiweMessage_join:
  "generateSiweMessage env a c =
     join_lines
       [location_host env @ '' wants you to sign in with your Ethereum account:'',
        a, [], ''Sign in to verify your wallet ownership'', [],
        ''URI: '' @ location_origin env,
        ''Version: 1'',
        ''Chain ID: '' @ Number_toString (Number_toString_beyond_safe env) c,
        ''Nonce: '' @ nonce_of (Math_random_toString36 env),
        ''Issued At: '' @ Date_toISOString env]"
  by (simp add: generateSiweMessage_def)

lemma lines_of_Version: "lines_of ''Version: 1'' = [''Version: 1'']"
  by (rule lines_of_no_newline) simp

lemma lines_of_statement:
  "lines_of ''Sign in to verify your wallet ownership''
     = [''Sign in to verify your wallet ownership'']"
  by (rule lines_of_no_newline) simp

lemma lines_of_Chain_ID:
  "Number_isSafeInteger c \<Longrightarrow>
   lines_of (''Chain ID: '' @ Number_toString beyond_safe c)
     = [''Chain ID: '' @ Number_toString beyond_safe c]"
  by (rule lines_of_no_newline) (simp add: Number_toString_no_newline)

lemma lines_of_host_line:
  "CHR ''\<newline>'' \<notin> set h \<Longrightarrow>
   lines_of (h @ '' wants you to sign in with your Ethereum account:'')
     = [h @ '' wants you to sign in with your Ethereum account:'']"
  by (rule lines_of_no_newline) simp

lemma concat_map_ten:
  "concat (map f [x0, x1, x2, x3, x4, x5, x6, x7, x8, x9]) =
     f x0 @ f x1 @ f x2 @ f x3 @ f x4 @ f x5 @ f x6 @ f x7 @ f x8 @ f x9"
  by simp

lemma generateSiweMessage_lines:
  "lines_of (generateSiweMessage env a c) =
     lines_of (location_host env @ '' wants you to sign in with your Ethereum account:'')
     @ lines_of a
     @ [[]] @ [''Sign in to verify your wallet ownership''] @ [[]]
     @ lines_of (''URI: '' @ location_origin env)
     @ [''Version: 1'']
     @ lines_of (''Chain ID: '' @ Number_toString (Number_toString_beyond_safe env) c)
     @ lines_of (''Nonce: '' @ nonce_of (Math_random_toString36 env))
     @ lines_of (''Issued At: '' @ Date_toISOString env)"
proof -
  have "lines_of (generateSiweMessage env a c) =
     concat (map lines_of
       [location_host env @ '' wants you to sign in with your Ethereum account:'',
        a, [], ''Sign in to verify your wallet ownership'', [],
        ''URI: '' @ location_origin env,
        ''Version: 1'',
        ''Chain ID: '' @ Number_toString (Number_toString_beyond_safe env) c,
        ''Nonce: '' @ nonce_of (Math_random_toString36 env),
        ''Issued At: '' @ Date_toISOString env])"
    unfolding generateSiweMessage_join by (rule lines_of_join_lines) simp
  then show ?thesis
    unfolding concat_map_ten lines_of_Version lines_of_statement lines_of.simps(1) .
qed

lemma generateSiweMessage_second_line:
  assumes "CHR ''\<newline>'' \<notin> set (location_host env)" and "CHR ''\<newline>'' \<notin> set a"
  shows "lines_of (generateSiweMessage env a c) ! 1 = a"
proof -
  have first:
    "lines_of (location_host env @ '' wants you to sign in with your Ethereum account:'')
      = [location_host env @ '' wants you to sign in with your Ethereum account:'']"
    using assms(1) by (rule lines_of_host_line)
  have second: "lines_of a = [a]"
    using assms(2) by (rule lines_of_no_newline)
  show ?thesis
    unfolding generateSiweMessage_lines first second by simp
qed

lemma generateSiweMessage_Version_line:
  "''Version: 1'' \<in> set (lines_of (generateSiweMessage env a c))"
  unfolding generateSiweMessage_lines by simp

lemma generateSiweMessage_Chain_ID_line:
  assumes "Number_isSafeInteger c"
  shows "''Chain ID: '' @ Number_toString (Number_toString_beyond_safe env) c
           \<in> set (lines_of (generateSiweMessage env a c))"
  unfolding generateSiweMessage_lines lines_of_Chain_ID [OF assms] by simp

text \<open>
  C6, as the claim states it, fails for an address that contains a line feed: the address
  is then no line of the challenge, and the second line is only its first piece.
\<close>

theorem generateSiweMessage_address_line_counterexample:
  "''0xA\<newline>0xB'' \<notin> set (lines_of (generateSiweMessage
       \<lparr>location_host = ''example.org'', location_origin = ''https://example.org'',
        Math_random_toString36 = ''0.4i'', Date_toISOString = ''2024-01-01T00:00:00.000Z'',
        Number_toString_beyond_safe = (\<lambda>n. ''1e+21'')\<rparr>
       ''0xA\<newline>0xB'' 1))
   \<and> lines_of (generateSiweMessage
       \<lparr>location_host = ''example.org'', location_origin = ''https://example.org'',
        Math_random_toString36 = ''0.4i'', Date_toISOString = ''2024-01-01T00:00:00.000Z'',
        Number_toString_beyond_safe = (\<lambda>n. ''1e+21'')\<rparr>
       ''0xA\<newline>0xB'' 1) ! 1 = ''0xA''"
proof -
  have address_lines: "lines_of ''0xA\<newline>0xB'' = [''0xA'', ''0xB'']"
    using lines_of_append_newline [of "''0xA''" "''0xB''"] by (simp add: lines_of_no_newline)
  have nonce: "nonce_of ''0.4i'' = ''4i''"
    by (simp add: nonce_of_def substring_def)
  have numeral: "Number_toString (\<lambda>n. ''1e+21'') 1 = ''1''"
    by (simp add: Number_toString_def Number_isSafeInteger_def nat_toString.simps digit_char_def)
  show ?thesis
    by (simp add: generateSiweMessage_lines address_lines nonce numeral lines_of_no_newline)
qed

text \<open>
  The chain id line of a number beyond the safe integers does not carry the digits of the
  chain id passed in: JavaScript prints \<open>2^64\<close> as \<open>18446744073709552000\<close>.
\<close>

lemma generateSiweMessage_Chain_ID_beyond_safe:
  "lines_of (generateSiweMessage
       \<lparr>location_host = ''example.org'', location_origin = ''https://example.org'',
        Math_random_toString36 = ''0.4i'', Date_toISOString = ''2024-01-01T00:00:00.000Z'',
        Number_toString_beyond_safe = (\<lambda>n. ''18446744073709552000'')\<rparr>
       ''0xA'' 18446744073709551616) ! 7 = ''Chain ID: 18446744073709552000''
   \<and> parse_int ''18446744073709552000'' \<noteq> 18446744073709551616"
proof -
  have nonce: "nonce_of ''0.4i'' = ''4i''"
    by (simp add: nonce_of_def substring_def)
  have numeral: "Number_toString (\<lambda>n. ''18446744073709552000'') 18446744073709551616
                   = ''18446744073709552000''"
    by (simp add: Number_toString_def Number_isSafeInteger_def)
  have lines: "lines_of (generateSiweMessage
       \<lparr>location_host = ''example.org'', location_origin = ''https://example.org'',
        Math_random_toString36 = ''0.4i'', Date_toISOString = ''2024-01-01T00:00:00.000Z'',
        Number_toString_beyond_safe = (\<lambda>n. ''18446744073709552000'')\<rparr>
       ''0xA'' 18446744073709551616) ! 7 = ''Chain ID: 18446744073709552000''"
    by (simp add: generateSiweMessage_lines nonce numeral lines_of_no_newline)
  have "parse_int ''18446744073709552000'' = 18446744073709552000"
    by (simp add: parse_int_def parse_nat_def digit_value_def)
  with lines show ?thesis by simp
qed

text \<open>
  C6, amended. For every address string and every integer chain id, the challenge has the
  line \<open>Version: 1\<close>. When the chain id is a safe integer (at most \<open>2^53 - 1\<close> in
  magnitude), the challenge has the line \<open>Chain ID: \<close> followed by a decimal numeral whose
  value is the chain id passed in. When the address has no line feed, on a page whose host
  has no line feed, the challenge has the address verbatim as its second line.
\<close>

theorem generateSiweMessage_required_lines:
  "''Version: 1'' \<in> set (lines_of (generateSiweMessage env a c))
   \<and> (Number_isSafeInteger c \<longrightarrow>
        ''Chain ID: '' @ Number_toString (Number_toString_beyond_safe env) c
          \<in> set (lines_of (generateSiweMessage env a c))
        \<and> parse_int (Number_toString (Number_toString_beyond_safe env) c) = c)
   \<and> (CHR ''\<newline>'' \<notin> set (location_host env) \<and> CHR ''\<newline>'' \<notin> set a \<longrightarrow>
        lines_of (generateSiweMessage env a c) ! 1 = a)"
  using generateSiweMessage_Version_line [of env a c]
    generateSiweMessage_Chain_ID_line [of c env a]
    parse_int_toString [of c "Number_toString_beyond_safe env"]
    generateSiweMessage_second_line [of env a c]
  by blast

theorem generateSiweMessage_required_lines_witness:
  "Number_isSafeInteger 80001
   \<and> CHR ''\<newline>'' \<notin> set ''example.org'' \<and> CHR ''\<newline>'' \<notin> set ''0xA''
   \<and> ''Version: 1'' \<in> set (lines_of (generateSiweMessage
       \<lparr>location_host = ''example.org'', location_origin = ''https://example.org'',
        Math_random_toString36 = ''0.4i'', Date_toISOString = ''2024-01-01T00:00:00.000Z'',
        Number_toString_beyond_safe = (\<lambda>n. ''1e+21'')\<rparr>
       ''0xA'' 80001))
   \<and> ''Chain ID: 80001'' \<in> set (lines_of (generateSiweMessage
       \<lparr>location_host = ''example.org'', location_origin = ''https://example.org'',
        Math_random_toString36 = ''0.4i'', Date_toISOString = ''2024-01-01T00:00:00.000Z'',
        Number_toString_beyond_safe = (\<lambda>n. ''1e+21'')\<rparr>
       ''0xA'' 80001))
   \<and> parse_int ''80001'' = 80001
   \<and> lines_of (generateSiweMessage
       \<lparr>location_host = ''example.org'', location_origin = ''https://example.org'',
        Math_random_toString36 = ''0.4i'', Date_toISOString = ''2024-01-01T00:00:00.000Z'',
        Number_toString_beyond_safe = (\<lambda>n. ''1e+21'')\<rparr>
       ''0xA'' 80001) ! 1 = ''0xA''"
proof -
  let ?env = "\<lparr>location_host = ''example.org'', location_origin = ''https://example.org'',
        Math_random_toString36 = ''0.4i'', Date_toISOString = ''2024-01-01T00:00:00.000Z'',
        Number_toString_beyond_safe = (\<lambda>n. ''1e+21'')\<rparr>"
  have safe: "Number_isSafeInteger 80001"
    by (simp add: Number_isSafeInteger_def)
  have host: "CHR ''\<newline>'' \<notin> set (location_host ?env)" by simp
  have addr: "CHR ''\<newline>'' \<notin> set ''0xA''" by simp
  have numeral: "Number_toString (\<lambda>n. ''1e+21'') 80001 = ''80001''"
    by (simp add: Number_toString_def Number_isSafeInteger_def nat_toString.simps digit_char_def)
  from generateSiweMessage_required_lines [of ?env "''0xA''" 80001] safe host addr numeral
  show ?thesis by simp
qed

subsection \<open>The nonce\<close>









end
